theory Spec2Isabelle
  imports Main "HOL-Library.Sublist"
begin

section \<open>Strings\<close>

text \<open>
  A Python \<open>str\<close> is a sequence of Unicode code points, and \<open>len\<close> counts code points.
  The prompts of the backend contain letters beyond ASCII (the German umlauts and an arrow),
  so a string is modelled as the list of its code points. \<open>ascii\<close> embeds a literal of
  printable ASCII characters; every other character is written as its code point.
\<close>

type_synonym str = "nat list"

definition ascii :: "string \<Rightarrow> str" where
  "ascii cs = map of_char cs"

abbreviation nl :: str where
  "nl \<equiv> [10]"

text \<open>\<open>sep.join(xs)\<close>\<close>

fun join :: "str \<Rightarrow> str list \<Rightarrow> str" where
  "join sep [] = []"
| "join sep [x] = x"
| "join sep (x # y # ys) = x @ sep @ join sep (y # ys)"

text \<open>
  \<open>str.isspace\<close> for one character: the code points that CPython's
  \<open>Py_UNICODE_ISSPACE\<close> accepts. \<open>s.strip()\<close> removes them from both ends.
\<close>

definition isspace :: "nat \<Rightarrow> bool" where
  "isspace c =
     ((9 \<le> c \<and> c \<le> 13) \<or> (28 \<le> c \<and> c \<le> 32) \<or> c = 133 \<or> c = 160 \<or> c = 5760
      \<or> (8192 \<le> c \<and> c \<le> 8202) \<or> c = 8232 \<or> c = 8233 \<or> c = 8239 \<or> c = 8287
      \<or> c = 12288)"

definition strip :: "str \<Rightarrow> str" where
  "strip s = rev (dropWhile isspace (rev (dropWhile isspace s)))"

text \<open>
  What a call can end in besides its result: an \<open>HTTPException\<close> with its status code and
  detail, the \<open>KeyError\<close> of a dictionary subscript, or the \<open>ValueError\<close> of an integer
  that is too long to be written out. No handler of the backend catches the last two.
\<close>

datatype error = HTTPException nat str | KeyError int | ValueError

text \<open>The decimal digits of a natural number.\<close>

function digits :: "nat \<Rightarrow> str" where
  "digits n = (if n < 10 then [48 + n] else digits (n div 10) @ [48 + n mod 10])"
  by pat_completeness auto
termination
  by (relation "measure id") auto

declare digits.simps [simp del]

text \<open>
  \<open>str(n)\<close> for an integer, as an f-string renders it: the decimal digits, after a minus
  sign for a negative number. CPython refuses to convert an integer of more digits than
  \<open>sys.int_max_str_digits\<close>, which is 4300 unless the interpreter is configured otherwise,
  and raises \<open>ValueError\<close>; the sign does not count.
\<close>

definition int_max_str_digits :: nat where
  "int_max_str_digits = 4300"

definition str_int :: "int \<Rightarrow> error + str" where
  "str_int i =
     (let ds = digits (nat \<bar>i\<bar>)
      in if length ds > int_max_str_digits then Inl ValueError
         else Inr (if i < 0 then 45 # ds else ds))"

section \<open>Progressive hint system\<close>

subsection \<open>The level table\<close>

record level_info =
  name :: str
  description :: str
  prompt_instruction :: str

definition HINT_LEVELS :: "int \<rightharpoonup> level_info" where
  "HINT_LEVELS = [
    1 \<mapsto> \<lparr>
      name = ascii ''Konzept'',
      description = ascii ''Allgemeines Konzept und Theorie'',
      prompt_instruction =
        ascii ''Erkl'' @ [228] @
        ascii ''re nur das grundlegende Konzept oder die Theorie hinter der Frage. '' @
        ascii ''Gib KEINE konkreten Befehle oder Tools an. Halte die Antwort kurz (2-3 S'' @
        [228] @ ascii ''tze).''\<rparr>,
    2 \<mapsto> \<lparr>
      name = ascii ''Tool/Bereich'',
      description = ascii ''Welches Tool oder welcher Bereich'',
      prompt_instruction =
        ascii ''Nenne das relevante Tool, Programm oder den Konfigurationsbereich. '' @
        ascii ''Gib noch KEINE konkreten Befehle oder Syntax. Beispiel: '' @ [39] @
        ascii ''Du brauchst den Dienste-Manager'' @ [39] @ ascii '' oder '' @ [39] @
        ascii ''Schau in die Firewall-Einstellungen'' @ [39] @ ascii ''.''\<rparr>,
    3 \<mapsto> \<lparr>
      name = ascii ''Syntax/Weg'',
      description = ascii ''Konkreter Befehl oder Weg'',
      prompt_instruction =
        ascii ''Gib den konkreten Befehl, Men'' @ [252] @
        ascii ''pfad oder die Syntax an. Der Sch'' @ [252] @
        ascii ''ler soll es selbst ausf'' @ [252] @ ascii ''hren k'' @ [246] @
        ascii ''nnen. Erkl'' @ [228] @ ascii ''re kurz die Parameter.''\<rparr>,
    4 \<mapsto> \<lparr>
      name = ascii ''L'' @ [246] @ ascii ''sung'',
      description = ascii ''Vollst'' @ [228] @ ascii ''ndige L'' @ [246] @ ascii ''sung'',
      prompt_instruction =
        ascii ''Gib die vollst'' @ [228] @ ascii ''ndige L'' @ [246] @
        ascii ''sung mit allen Schritten. Erkl'' @ [228] @
        ascii ''re was jeder Schritt bewirkt.'' @ nl @
        ascii ''- Gehe JEDEN einzelnen Schritt durch, der im Kontext steht'' @ nl @
        ascii ''- Verwende EXAKT die IPs, Gateways und Werte aus dem Kontext'' @ nl @
        ascii ''- ERFINDE KEINE Details die nicht im Kontext stehen'' @ nl @
        ascii ''- Wenn etwas unklar ist, sage es'' @ nl @
        ascii ''- Formatiere '' @ [252] @ ascii ''bersichtlich mit nummerierten Schritten''\<rparr>]"

subsection \<open>Prompt construction\<close>

text \<open>
  The two f-strings of \<open>build_hint_prompt\<close>, as functions of the values they interpolate;
  \<open>hint_level_str\<close> is the level as the f-string has formatted it.
\<close>

definition system_prompt_text :: "str \<Rightarrow> level_info \<Rightarrow> str" where
  "system_prompt_text hint_level_str level_info =
      ascii ''Du bist ein Tutor f'' @ [252] @ ascii ''r IT-Administration und Cybersecurity.'' @ nl @
      ascii ''Du hilfst Sch'' @ [252] @ ascii ''lern bei Lab-'' @ [220] @
      ascii ''bungen, indem du progressive Hinweise gibst.'' @ nl @
      nl @
      ascii ''AKTUELLER HINT-LEVEL: '' @ hint_level_str @
      ascii '' ('' @ name level_info @ ascii '')'' @ nl @
      ascii ''ANWEISUNG: '' @ prompt_instruction level_info @ nl @
      nl @
      ascii ''WICHTIG:'' @ nl @
      ascii ''- Antworte auf Deutsch'' @ nl @
      ascii ''- Sei pr'' @ [228] @ ascii ''zise und klar'' @ nl @
      ascii ''- Gib NUR Informationen passend zum aktuellen Level'' @ nl @
      ascii ''- Wenn der Kontext nicht ausreicht, sage das ehrlich'' @ nl @
      ascii ''- Verwende EXAKT die IPs, Subnetze, Gateways aus dem Kontext'' @ nl @
      ascii ''- ERFINDE KEINE Werte die nicht im Kontext oder den Unterlagen stehen'' @ nl @
      ascii ''- Wenn Information fehlt, sage: '' @ [34] @
      ascii ''Diese Information steht nicht in den Unterlagen'' @ [34] @ nl @
      ascii ''- Antworte auf Deutsch'' @ nl @
      ascii ''- Sei pr'' @ [228] @ ascii ''zise und vollst'' @ [228] @ ascii ''ndig'' @ nl @
      ascii ''- Gehe JEDEN einzelnen Schritt durch, der im Kontext steht'' @ nl @
      ascii ''- BEHALTE Variablen-Notation bei: 192.168.x.0 statt konkreter IPs'' @ nl @
      ascii ''- Erkl'' @ [228] @ ascii ''re dass x = Labor-ID des Students (student03 '' @ [8594] @
      ascii '' x=3)'' @ nl @
      ascii ''- ERFINDE KEINE konkreten IP-Adressen'' @ nl @
      ascii ''- Wenn der User seinen Lab-Kontext angibt, ersetze x durch seine Nummer''"

definition user_prompt_text :: "str \<Rightarrow> str \<Rightarrow> str option \<Rightarrow> str \<Rightarrow> level_info \<Rightarrow> str" where
  "user_prompt_text question context lab_context hint_level_str level_info =
      ascii ''FRAGE DES SCH'' @ [220] @ ascii ''LERS:'' @ nl @
      question @ nl @
      nl @
      ascii ''KONTEXT AUS DER WISSENSBASIS (wenn du andere Infos verwendest, '' @
      ascii ''markiere diese eindeutig als -nicht aus Wisensbasis-):'' @ nl @
      context @ nl @
      nl @
      ascii ''LAB-KONTEXT:'' @ nl @
      (case lab_context of
         Some l \<Rightarrow> if l \<noteq> [] then l else ascii ''Kein spezifischer Lab-Kontext angegeben''
       | None \<Rightarrow> ascii ''Kein spezifischer Lab-Kontext angegeben'') @ nl @
      nl @
      ascii ''Gib einen Hinweis auf Level '' @ hint_level_str @
      ascii '' ('' @ name level_info @ ascii '').''"

text \<open>
  \<open>HINT_LEVELS.get(hint_level, HINT_LEVELS[1])\<close>: the default is a subscript, evaluated
  before the lookup, and a subscript raises on a missing key. The f-strings then format the
  level, which is where an integer that is too long raises.
\<close>

definition build_hint_prompt :: "str \<Rightarrow> str \<Rightarrow> str option \<Rightarrow> int \<Rightarrow> error + (str \<times> str)" where
  "build_hint_prompt question context lab_context hint_level =
     (case HINT_LEVELS 1 of
        None \<Rightarrow> Inl (KeyError 1)
      | Some default_info \<Rightarrow>
          let level_info = (case HINT_LEVELS hint_level of
                              Some info \<Rightarrow> info
                            | None \<Rightarrow> default_info)
          in (case str_int hint_level of
                Inl e \<Rightarrow> Inl e
              | Inr hint_level_str \<Rightarrow>
                  let system_prompt = system_prompt_text hint_level_str level_info;
                      user_prompt =
                        user_prompt_text question context lab_context hint_level_str level_info
                  in Inr (system_prompt, user_prompt)))"

subsection \<open>The collaborators\<close>

text \<open>
  Everything the endpoints reach outside their own code is taken as given: the three global
  handles, which are \<open>None\<close> until startup has set them, and the library calls with the
  answer each one gives. A call that raises answers \<open>Inl\<close> with the text of the exception.
\<close>

type_synonym exn = str

record Document =
  page_content :: str
  metadata :: "(str \<times> str) list"

record VectorStore =
  similarity_search :: "str \<Rightarrow> nat \<Rightarrow> exn + Document list"
  add_documents :: "Document list \<Rightarrow> exn + unit"

record environment =
  llm :: "(str \<Rightarrow> str \<Rightarrow> exn + str) option"
    \<comment> \<open>the chain \<open>prompt | llm | StrOutputParser()\<close> built from the system and the human
        message and invoked once\<close>
  vectorstore :: "VectorStore option"
  embeddings :: bool
    \<comment> \<open>whether the embeddings handle has been set\<close>
  str_lower :: "str \<Rightarrow> str"
    \<comment> \<open>\<open>str.lower\<close>, the case mapping of the Unicode database\<close>
  pdf_pages :: "nat list \<Rightarrow> exn + str list"
    \<comment> \<open>\<open>PdfReader\<close> on the uploaded bytes: \<open>extract_text()\<close> of each page\<close>
  decode_utf8 :: "nat list \<Rightarrow> exn + str"
    \<comment> \<open>\<open>bytes.decode('utf-8')\<close>\<close>
  split_text :: "str \<Rightarrow> exn + str list"
    \<comment> \<open>\<open>RecursiveCharacterTextSplitter(chunk_size=1000, chunk_overlap=200,
        length_function=len).split_text\<close>\<close>
  utcnow_isoformat :: "nat \<Rightarrow> str"
    \<comment> \<open>\<open>datetime.utcnow().isoformat()\<close> at the n-th reading of the clock in a request\<close>

text \<open>The calls a request makes to its collaborators, in order.\<close>

datatype call =
    SimilaritySearch str nat
  | ChainInvoke str str
  | ReadPdf str
  | DecodeUtf8
  | SplitText str
  | AddDocuments "Document list"

subsection \<open>The hint endpoint\<close>

text \<open>
  The retrieval block of \<open>get_hint\<close>: the search and the join, or the text of the handler.
  The message that the handler prints is left out.
\<close>

definition search_context :: "VectorStore \<Rightarrow> str \<Rightarrow> str" where
  "search_context vs question =
     (case similarity_search vs question 8 of
        Inr docs \<Rightarrow> join (nl @ nl) (map page_content docs)
      | Inl e \<Rightarrow> ascii ''Keine relevanten Dokumente gefunden.'')"

record HintRequest =
  question :: str
  lab_context :: "str option"
  hint_level :: int

record HintResponse =
  hint :: str
  hint_level :: int
  hint_level_name :: str
  remaining_levels :: int

text \<open>
  The endpoint runs after \<open>get_current_user\<close> has accepted the token of the caller, whom
  it does not use. The two subscripts of the level table are kept as lookups that can fail.
  A local variable that has the name of a response field carries a prime.
\<close>

definition get_hint :: "environment \<Rightarrow> HintRequest \<Rightarrow> (error + HintResponse) \<times> call list" where
  "get_hint env request =
     (case llm env of
        None \<Rightarrow> (Inl (HTTPException 503 (ascii ''Backend-Services nicht verf'' @ [252] @ ascii ''gbar'')), [])
      | Some chain_invoke \<Rightarrow>
     (case vectorstore env of
        None \<Rightarrow> (Inl (HTTPException 503 (ascii ''Backend-Services nicht verf'' @ [252] @ ascii ''gbar'')), [])
      | Some vs \<Rightarrow>
          let hint_level' = max 1 (min 4 (HintRequest.hint_level request));
              context = search_context vs (question request);
              searched = [SimilaritySearch (question request) 8]
          in (case build_hint_prompt (question request) context (lab_context request) hint_level' of
                Inl e \<Rightarrow> (Inl e, searched)
              | Inr (system_prompt, user_prompt) \<Rightarrow>
                  let invoked = searched @ [ChainInvoke system_prompt user_prompt]
                  in (case chain_invoke system_prompt user_prompt of
                        Inl e \<Rightarrow>
                          (Inl (HTTPException 500 (ascii ''Fehler bei der Hint-Generierung: '' @ e)),
                           invoked)
                      | Inr hint' \<Rightarrow>
                          (case HINT_LEVELS hint_level' of
                             None \<Rightarrow> (Inl (KeyError hint_level'), invoked)
                           | Some level_info \<Rightarrow>
                               (Inr \<lparr>hint = hint',
                                     hint_level = hint_level',
                                     hint_level_name = name level_info,
                                     remaining_levels = 4 - hint_level'\<rparr>,
                                invoked))))))"

section \<open>Document upload\<close>

text \<open>
  \<open>s.rfind(c)\<close>: the highest index of the character, or \<open>-1\<close>. \<open>os.path.splitext\<close> as
  \<open>posixpath\<close> defines it: the extension starts at the last dot of the last path component,
  unless only dots precede it there.
\<close>

definition rfind :: "nat \<Rightarrow> str \<Rightarrow> int" where
  "rfind c p =
     (if c \<in> set p then int (length p) - 1 - int (length (takeWhile (\<lambda>x. x \<noteq> c) (rev p)))
      else - 1)"

definition splitext :: "str \<Rightarrow> str \<times> str" where
  "splitext p =
     (let sepIndex = rfind 47 p;
          dotIndex = rfind 46 p
      in if dotIndex > sepIndex
            \<and> list_ex (\<lambda>c. c \<noteq> 46) (take (nat (dotIndex - (sepIndex + 1))) (drop (nat (sepIndex + 1)) p))
         then (take (nat dotIndex) p, drop (nat dotIndex) p)
         else (p, []))"

record UploadFile =
  filename :: str
  content :: "nat list"
    \<comment> \<open>the bytes that \<open>file.read()\<close> returns\<close>

record User =
  username :: str
  role :: str

record UploadResponse =
  message :: str
  filename :: str
  chunks_created :: int

text \<open>
  The extraction block of \<open>upload_document\<close>: a PDF goes through a temporary file and the
  reader, page by page; every other type is decoded.
\<close>

definition extract_text :: "environment \<Rightarrow> str \<Rightarrow> UploadFile \<Rightarrow> (exn + str) \<times> call list" where
  "extract_text env file_ext file =
     (if file_ext = ascii ''.pdf''
      then ((case pdf_pages env (content file) of
               Inl e \<Rightarrow> Inl e
             | Inr pages \<Rightarrow> Inr (foldl (\<lambda>text page. text @ page @ nl) [] pages)),
            [ReadPdf (ascii ''/tmp/'' @ UploadFile.filename file)])
      else (decode_utf8 env (content file), [DecodeUtf8]))"

text \<open>
  The list comprehension that wraps each chunk in a \<open>Document\<close>; the clock is read once for
  each chunk.
\<close>

definition make_documents :: "environment \<Rightarrow> UploadFile \<Rightarrow> str \<Rightarrow> User \<Rightarrow> str list \<Rightarrow> Document list" where
  "make_documents env file file_ext current_user chunks =
     map (\<lambda>(i, chunk).
            \<lparr>page_content = chunk,
             metadata = [(ascii ''source'', UploadFile.filename file),
                         (ascii ''file_type'', file_ext),
                         (ascii ''uploaded_by'', username current_user),
                         (ascii ''uploaded_at'', utcnow_isoformat env i)]\<rparr>)
         (enumerate 0 chunks)"

text \<open>
  The endpoint runs after \<open>require_trainer\<close> has accepted the caller, whom it receives as
  \<open>current_user\<close>. Whatever raises inside its \<open>try\<close> block leaves as status 500, except an
  \<open>HTTPException\<close>, which is raised again as it is.
\<close>

definition upload_document :: "environment \<Rightarrow> UploadFile \<Rightarrow> User \<Rightarrow> (error + UploadResponse) \<times> call list" where
  "upload_document env file current_user =
     (case vectorstore env of
        None \<Rightarrow> (Inl (HTTPException 503 (ascii ''Backend-Services nicht verf'' @ [252] @ ascii ''gbar'')), [])
      | Some vs \<Rightarrow>
     if \<not> embeddings env
     then (Inl (HTTPException 503 (ascii ''Backend-Services nicht verf'' @ [252] @ ascii ''gbar'')), [])
     else
       let allowed_extensions = [ascii ''.pdf'', ascii ''.sql'', ascii ''.md'', ascii ''.txt''];
           file_ext = snd (splitext (str_lower env (UploadFile.filename file)))
       in if file_ext \<notin> set allowed_extensions
          then (Inl (HTTPException 400
                      (ascii ''Nur '' @ join (ascii '', '') allowed_extensions @
                       ascii '' Dateien werden unterst'' @ [252] @ ascii ''tzt'')), [])
          else
            (case extract_text env file_ext file of
               (Inl e, extracted) \<Rightarrow>
                 (Inl (HTTPException 500 (ascii ''Fehler beim Verarbeiten: '' @ e)), extracted)
             | (Inr text, extracted) \<Rightarrow>
                 if strip text = []
                 then (Inl (HTTPException 400
                             (ascii ''Datei enth'' @ [228] @ ascii ''lt keinen extrahierbaren Text'')),
                       extracted)
                 else
                   (case split_text env text of
                      Inl e \<Rightarrow>
                        (Inl (HTTPException 500 (ascii ''Fehler beim Verarbeiten: '' @ e)),
                         extracted @ [SplitText text])
                    | Inr chunks \<Rightarrow>
                        let documents = make_documents env file file_ext current_user chunks;
                            added = extracted @ [SplitText text, AddDocuments documents]
                        in (case add_documents vs documents of
                              Inl e \<Rightarrow>
                                (Inl (HTTPException 500 (ascii ''Fehler beim Verarbeiten: '' @ e)),
                                 added)
                            | Inr _ \<Rightarrow>
                                (Inr \<lparr>message = ascii ''Dokument erfolgreich hochgeladen'',
                                      filename = UploadFile.filename file,
                                      chunks_created = int (length chunks)\<rparr>,
                                 added)))))"

section \<open>The client\<close>

text \<open>
  What the page shows after the hint button is pressed: a warning, the error of a request
  that did not answer with status 200, or the hint of the response.
\<close>

datatype shown = Warning str | Error error | Hint HintResponse

text \<open>
  The handler of the hint button in the client. \<open>post_hint\<close> is the \<open>/hint\<close> endpoint as
  the client reaches it over HTTP; the text input gives the lab context as a string. Every
  answer other than status 200 is shown as an error. The two parameters that have the name
  of a request field carry a prime.
\<close>

definition hint_button ::
  "(HintRequest \<Rightarrow> (error + HintResponse) \<times> call list) \<Rightarrow> str \<Rightarrow> str \<Rightarrow> int \<Rightarrow> shown list \<times> call list" where
  "hint_button post_hint question' lab_context' level =
     (if strip question' \<noteq> []
      then (case post_hint \<lparr>question = question', lab_context = Some lab_context', hint_level = level\<rparr> of
              (Inr result, calls) \<Rightarrow> ([Hint result], calls)
            | (Inl e, calls) \<Rightarrow> ([Error e], calls))
      else ([Warning (ascii ''Bitte gib eine Frage ein'')], []))"

section \<open>Sample collaborators\<close>

text \<open>
  Concrete collaborators on which the endpoints can be run: an index of two passages, a
  generator that answers every prompt with one sentence, an ASCII lower-casing, a decoder of
  ASCII bytes and a splitter that returns the trimmed text as one chunk.
\<close>

definition sample_docs :: "Document list" where
  "sample_docs =
     [\<lparr>page_content = ascii ''Gateway: 192.168.x.1'', metadata = []\<rparr>,
      \<lparr>page_content = ascii ''DNS: 192.168.x.10'', metadata = []\<rparr>]"

definition sample_vectorstore :: VectorStore where
  "sample_vectorstore =
     \<lparr>similarity_search = (\<lambda>q k. Inr (take k sample_docs)),
      add_documents = (\<lambda>documents. Inr ())\<rparr>"

definition sample_env :: environment where
  "sample_env =
     \<lparr>llm = Some (\<lambda>system_prompt user_prompt. Inr (ascii ''Denke an das Gateway.'')),
      vectorstore = Some sample_vectorstore,
      embeddings = True,
      str_lower = map (\<lambda>c. if 65 \<le> c \<and> c \<le> 90 then c + 32 else c),
      pdf_pages = (\<lambda>bytes. Inl (ascii ''EOF marker not found'')),
      decode_utf8 = (\<lambda>bytes. Inr bytes),
      split_text = (\<lambda>text. Inr [strip text]),
      utcnow_isoformat = (\<lambda>n. ascii ''2026-01-01T00:00:00'')\<rparr>"

definition empty_index_env :: environment where
  "empty_index_env =
     sample_env\<lparr>vectorstore :=
       Some \<lparr>similarity_search = (\<lambda>q k. Inr []), add_documents = (\<lambda>documents. Inr ())\<rparr>\<rparr>"

definition llm_down_env :: environment where
  "llm_down_env =
     sample_env\<lparr>llm := Some (\<lambda>system_prompt user_prompt. Inl (ascii ''Connection error.''))\<rparr>"

definition sample_request :: HintRequest where
  "sample_request =
     \<lparr>question = ascii ''Wie setze ich das Gateway?'', lab_context = None, hint_level = 1\<rparr>"

definition sample_user :: User where
  "sample_user = \<lparr>username = ascii ''trainer'', role = ascii ''trainer''\<rparr>"

definition sample_file :: UploadFile where
  "sample_file = \<lparr>UploadFile.filename = ascii ''Notes.TXT'', content = ascii ''  Gateway 192.168.x.1  ''\<rparr>"

section \<open>Facts about the formatting of integers\<close>

lemma digits_small: "n < 10 \<Longrightarrow> digits n = [48 + n]"
  by (simp add: digits.simps)

lemma digits_large: "\<not> n < 10 \<Longrightarrow> digits n = digits (n div 10) @ [48 + n mod 10]"
  by (subst digits.simps) simp

lemma digits_not_Nil: "digits n \<noteq> []"
  by (cases "n < 10") (simp_all add: digits_small digits_large)

lemma digits_length_le: "0 < k \<Longrightarrow> n < 10 ^ k \<Longrightarrow> length (digits n) \<le> k"
proof (induction k arbitrary: n)
  case 0
  then show ?case by simp
next
  case (Suc k)
  show ?case
  proof (cases "n < 10")
    case True
    then show ?thesis by (simp add: digits_small)
  next
    case False
    with Suc.prems have k: "0 < k" by (cases k) auto
    from Suc.prems have "n div 10 < 10 ^ k"
      by (simp add: less_mult_imp_div_less mult.commute)
    with k have "length (digits (n div 10)) \<le> k" by (rule Suc.IH)
    with False show ?thesis by (simp add: digits_large)
  qed
qed

lemma digits_length_gt: "10 ^ k \<le> n \<Longrightarrow> k < length (digits n)"
proof (induction k arbitrary: n)
  case 0
  then show ?case using digits_not_Nil [of n] by (cases "digits n") auto
next
  case (Suc k)
  then have big: "\<not> n < 10"
    by (metis One_nat_def le_trans not_less one_le_numeral one_le_power power_Suc power_one_right
        mult.right_neutral mult_le_mono2)
  from Suc.prems have "10 ^ k \<le> n div 10"
    by (simp add: less_eq_div_iff_mult_less_eq mult.commute)
  then have "k < length (digits (n div 10))" by (rule Suc.IH)
  with big show ?case by (simp add: digits_large)
qed

lemma int_max_str_digits_pos: "0 < int_max_str_digits"
  by (simp add: int_max_str_digits_def)

lemma str_int_ValueError_iff: "str_int i = Inl ValueError \<longleftrightarrow> 10 ^ int_max_str_digits \<le> \<bar>i\<bar>"
proof
  assume "str_int i = Inl ValueError"
  then have "int_max_str_digits < length (digits (nat \<bar>i\<bar>))"
    by (simp add: str_int_def Let_def split: if_splits)
  then have "\<not> nat \<bar>i\<bar> < 10 ^ int_max_str_digits"
    using digits_length_le [OF int_max_str_digits_pos, of "nat \<bar>i\<bar>"] by auto
  then have "(10::nat) ^ int_max_str_digits \<le> nat \<bar>i\<bar>" by simp
  then have "int (10 ^ int_max_str_digits) \<le> \<bar>i\<bar>" by linarith
  then show "10 ^ int_max_str_digits \<le> \<bar>i\<bar>" by simp
next
  assume "10 ^ int_max_str_digits \<le> \<bar>i\<bar>"
  then have "int (10 ^ int_max_str_digits) \<le> \<bar>i\<bar>" by simp
  then have "(10::nat) ^ int_max_str_digits \<le> nat \<bar>i\<bar>" by linarith
  then have "int_max_str_digits < length (digits (nat \<bar>i\<bar>))" by (rule digits_length_gt)
  then show "str_int i = Inl ValueError" by (simp add: str_int_def Let_def)
qed

lemma str_int_Inr:
  "\<bar>i\<bar> < 10 ^ int_max_str_digits \<Longrightarrow>
     str_int i = Inr (if i < 0 then 45 # digits (nat \<bar>i\<bar>) else digits (nat \<bar>i\<bar>))"
  using str_int_ValueError_iff [of i]
  by (auto simp add: str_int_def Let_def)

lemma str_int_cases:
  "str_int i = Inl ValueError
   \<or> str_int i = Inr (if i < 0 then 45 # digits (nat \<bar>i\<bar>) else digits (nat \<bar>i\<bar>))"
  by (simp add: str_int_def Let_def)

lemma below_ten_in_range: "\<bar>i\<bar> < 10 \<Longrightarrow> \<bar>i :: int\<bar> < 10 ^ int_max_str_digits"
proof -
  assume a: "\<bar>i\<bar> < 10"
  have "(10::int) ^ 1 \<le> 10 ^ int_max_str_digits"
    using int_max_str_digits_pos by (intro power_increasing) auto
  with a show ?thesis by simp
qed

lemma str_int_digit: "0 \<le> i \<Longrightarrow> i < 10 \<Longrightarrow> str_int i = Inr [48 + nat i]"
  using str_int_Inr [of i] below_ten_in_range [of i] by (simp add: digits_small)

section \<open>Facts about the level table and the prompts\<close>

lemma HINT_LEVELS_None_iff: "HINT_LEVELS L = None \<longleftrightarrow> L \<notin> {1, 2, 3, 4}"
  by (simp add: HINT_LEVELS_def)

lemma HINT_LEVELS_clamped: "\<exists>info. HINT_LEVELS (max 1 (min 4 L)) = Some info"
proof -
  have "max 1 (min 4 L) \<in> {1, 2, 3, 4::int}" by auto
  then have "HINT_LEVELS (max 1 (min 4 L)) \<noteq> None"
    using HINT_LEVELS_None_iff by blast
  then show ?thesis by blast
qed

lemma HINT_LEVELS_names:
  "HINT_LEVELS L = Some info \<Longrightarrow>
     (L = 1 \<and> name info = ascii ''Konzept'') \<or> (L = 2 \<and> name info = ascii ''Tool/Bereich'')
     \<or> (L = 3 \<and> name info = ascii ''Syntax/Weg'')
     \<or> (L = 4 \<and> name info = ascii ''L'' @ [246] @ ascii ''sung'')"
  by (auto simp add: HINT_LEVELS_def split: if_splits)

lemma HINT_LEVELS_1_instruction:
  "HINT_LEVELS 1 = Some info \<Longrightarrow>
     prompt_instruction info =
        ascii ''Erkl'' @ [228] @
        ascii ''re nur das grundlegende Konzept oder die Theorie hinter der Frage. '' @
        ascii ''Gib KEINE konkreten Befehle oder Tools an. Halte die Antwort kurz (2-3 S'' @
        [228] @ ascii ''tze).''"
  by (auto simp add: HINT_LEVELS_def)

lemma build_hint_prompt_result:
  "\<exists>info. (HINT_LEVELS L = Some info \<or> HINT_LEVELS L = None \<and> HINT_LEVELS 1 = Some info)
     \<and> build_hint_prompt q c l L =
         (case str_int L of
            Inl e \<Rightarrow> Inl e
          | Inr s \<Rightarrow> Inr (system_prompt_text s info, user_prompt_text q c l s info))"
proof -
  obtain d where d: "HINT_LEVELS 1 = Some d"
    using HINT_LEVELS_None_iff [of 1] by auto
  show ?thesis
  proof (cases "HINT_LEVELS L")
    case None
    with d show ?thesis by (simp add: build_hint_prompt_def split: sum.splits)
  next
    case (Some info)
    with d show ?thesis by (simp add: build_hint_prompt_def split: sum.splits)
  qed
qed

lemma build_hint_prompt_errors:
  "build_hint_prompt q c l L = Inl e \<Longrightarrow> e = ValueError \<and> 10 ^ int_max_str_digits \<le> \<bar>L\<bar>"
  using build_hint_prompt_result [of L q c l] str_int_cases [of L] str_int_ValueError_iff [of L]
  by (auto split: sum.splits)

lemma build_hint_prompt_level:
  "1 \<le> L \<Longrightarrow> L \<le> 4 \<Longrightarrow>
     \<exists>info. HINT_LEVELS L = Some info
       \<and> build_hint_prompt q c l L
           = Inr (system_prompt_text [48 + nat L] info, user_prompt_text q c l [48 + nat L] info)"
proof -
  assume r: "1 \<le> L" "L \<le> 4"
  then have "HINT_LEVELS L \<noteq> None"
    using HINT_LEVELS_None_iff [of L] by auto
  moreover from r have "str_int L = Inr [48 + nat L]"
    by (intro str_int_digit) auto
  ultimately show ?thesis
    using build_hint_prompt_result [of L q c l] by auto
qed

lemma get_hint_run:
  assumes "llm env = Some chain" and "vectorstore env = Some vs"
  shows "\<exists>system_prompt user_prompt info.
           build_hint_prompt (question request) (search_context vs (question request))
               (lab_context request) (max 1 (min 4 (HintRequest.hint_level request)))
             = Inr (system_prompt, user_prompt)
         \<and> HINT_LEVELS (max 1 (min 4 (HintRequest.hint_level request))) = Some info
         \<and> get_hint env request =
              (case chain system_prompt user_prompt of
                 Inl e \<Rightarrow> Inl (HTTPException 500 (ascii ''Fehler bei der Hint-Generierung: '' @ e))
               | Inr h \<Rightarrow>
                   Inr \<lparr>hint = h,
                        hint_level = max 1 (min 4 (HintRequest.hint_level request)),
                        hint_level_name = name info,
                        remaining_levels = 4 - max 1 (min 4 (HintRequest.hint_level request))\<rparr>,
               [SimilaritySearch (question request) 8, ChainInvoke system_prompt user_prompt])"
proof -
  let ?L = "max 1 (min 4 (HintRequest.hint_level request))"
  have r: "1 \<le> ?L" "?L \<le> 4" by auto
  obtain info where i: "HINT_LEVELS ?L = Some info"
    and b: "build_hint_prompt (question request) (search_context vs (question request))
               (lab_context request) ?L
             = Inr (system_prompt_text [48 + nat ?L] info,
                    user_prompt_text (question request) (search_context vs (question request))
                      (lab_context request) [48 + nat ?L] info)"
    using build_hint_prompt_level [OF r] by blast
  have "get_hint env request =
              (case chain (system_prompt_text [48 + nat ?L] info)
                      (user_prompt_text (question request) (search_context vs (question request))
                        (lab_context request) [48 + nat ?L] info) of
                 Inl e \<Rightarrow> Inl (HTTPException 500 (ascii ''Fehler bei der Hint-Generierung: '' @ e))
               | Inr h \<Rightarrow>
                   Inr \<lparr>hint = h, hint_level = ?L, hint_level_name = name info,
                        remaining_levels = 4 - ?L\<rparr>,
               [SimilaritySearch (question request) 8,
                ChainInvoke (system_prompt_text [48 + nat ?L] info)
                  (user_prompt_text (question request) (search_context vs (question request))
                        (lab_context request) [48 + nat ?L] info)])"
    using assms i b by (simp add: get_hint_def Let_def split: sum.splits)
  with i b show ?thesis by blast
qed

lemma get_hint_Inr_level:
  assumes "get_hint env request = (Inr response, calls)"
  shows "\<exists>info. HINT_LEVELS (max 1 (min 4 (HintRequest.hint_level request))) = Some info
           \<and> HintResponse.hint_level response = max 1 (min 4 (HintRequest.hint_level request))
           \<and> hint_level_name response = name info
           \<and> remaining_levels response = 4 - max 1 (min 4 (HintRequest.hint_level request))"
  using assms
  by (auto simp add: get_hint_def Let_def split: option.splits sum.splits prod.splits)

lemma search_context_failure:
  "similarity_search vs q 8 = Inl e \<Longrightarrow> search_context vs q = ascii ''Keine relevanten Dokumente gefunden.''"
  by (simp add: search_context_def)

lemma search_context_no_results:
  "similarity_search vs q 8 = Inr [] \<Longrightarrow> search_context vs q = []"
  by (simp add: search_context_def)

lemma sample_run:
  assumes "HINT_LEVELS (max 1 (min 4 L)) = Some info"
  shows "fst (get_hint sample_env (sample_request\<lparr>HintRequest.hint_level := L\<rparr>)) =
     Inr \<lparr>hint = ascii ''Denke an das Gateway.'', hint_level = max 1 (min 4 L),
          hint_level_name = name info, remaining_levels = 4 - max 1 (min 4 L)\<rparr>"
proof -
  let ?chain = "\<lambda>system_prompt user_prompt. Inr (ascii ''Denke an das Gateway.'') :: exn + str"
  let ?r = "sample_request\<lparr>HintRequest.hint_level := L\<rparr>"
  have l: "llm sample_env = Some ?chain" and v: "vectorstore sample_env = Some sample_vectorstore"
    by (simp_all add: sample_env_def)
  from get_hint_run [OF l v, of ?r] obtain i where
    "HINT_LEVELS (max 1 (min 4 (HintRequest.hint_level ?r))) = Some i"
    "fst (get_hint sample_env ?r) =
       Inr \<lparr>hint = ascii ''Denke an das Gateway.'',
            hint_level = max 1 (min 4 (HintRequest.hint_level ?r)),
            hint_level_name = name i,
            remaining_levels = 4 - max 1 (min 4 (HintRequest.hint_level ?r))\<rparr>"
    by auto
  with assms show ?thesis by simp
qed

lemma sublist_skip: "sublist d s \<Longrightarrow> sublist d (p @ s)"
  by (metis sublist_append_leftI sublist_order.order.trans)

lemma sublist_here4: "sublist (a @ b @ c @ d) (a @ b @ c @ d @ s)"
  using sublist_append_rightI [of "a @ b @ c @ d" s] by simp

lemma sublist_same_head: "prefix d s \<Longrightarrow> sublist (a @ d) (a @ s)"
  by (metis prefix_imp_sublist same_prefix_prefix)

lemma system_prompt_text_directives:
  "sublist (ascii ''- ERFINDE KEINE Werte die nicht im Kontext oder den Unterlagen stehen'')
     (system_prompt_text s info)"
  "sublist (ascii ''- ERFINDE KEINE konkreten IP-Adressen'') (system_prompt_text s info)"
  "sublist (ascii ''- Wenn der Kontext nicht ausreicht, sage das ehrlich'')
     (system_prompt_text s info)"
  "sublist (ascii ''- Wenn Information fehlt, sage: '' @ [34] @
            ascii ''Diese Information steht nicht in den Unterlagen'' @ [34])
     (system_prompt_text s info)"
  unfolding system_prompt_text_def
  by (rule sublist_append_rightI | rule sublist_here4 | rule sublist_skip)+

lemma system_prompt_text_level_line:
  "sublist (ascii ''AKTUELLER HINT-LEVEL: '' @ s @ ascii '' ('' @ name info @ ascii '')'' @ nl @
            ascii ''ANWEISUNG: '' @ prompt_instruction info @ nl)
     (system_prompt_text s info)"
  unfolding system_prompt_text_def
  apply (rule sublist_same_head | rule sublist_skip)+
  apply simp
  done

lemma user_prompt_text_suffix:
  "suffix (ascii ''Gib einen Hinweis auf Level '' @ s @ ascii '' ('' @ name info @ ascii '').'')
     (user_prompt_text q c l s info)"
  unfolding user_prompt_text_def
  by (rule suffix_order.order_refl | rule suffix_appendI)+

lemma user_prompt_text_contains:
  "sublist q (user_prompt_text q c l s info)"
  "sublist c (user_prompt_text q c l s info)"
  unfolding user_prompt_text_def
  by (rule sublist_append_rightI | rule sublist_skip)+

lemma system_prompt_text_number:
  "\<exists>pre post. \<forall>s. system_prompt_text s info = pre @ s @ post"
  unfolding system_prompt_text_def
  apply (rule exI [where x =
        "ascii ''Du bist ein Tutor f'' @ [252] @ ascii ''r IT-Administration und Cybersecurity.'' @ nl @
         ascii ''Du hilfst Sch'' @ [252] @ ascii ''lern bei Lab-'' @ [220] @
         ascii ''bungen, indem du progressive Hinweise gibst.'' @ nl @ nl @
         ascii ''AKTUELLER HINT-LEVEL: ''"])
  apply (rule exI)
  apply (rule allI)
  apply (simp only: append_assoc)
  done

lemma user_prompt_text_number:
  "\<exists>pre post. \<forall>s. user_prompt_text q c l s info = pre @ s @ post"
  unfolding user_prompt_text_def
  apply (rule exI [where x =
        "ascii ''FRAGE DES SCH'' @ [220] @ ascii ''LERS:'' @ nl @ q @ nl @ nl @
         ascii ''KONTEXT AUS DER WISSENSBASIS (wenn du andere Infos verwendest, '' @
         ascii ''markiere diese eindeutig als -nicht aus Wisensbasis-):'' @ nl @ c @ nl @ nl @
         ascii ''LAB-KONTEXT:'' @ nl @
         (case l of
            Some l \<Rightarrow> if l \<noteq> [] then l else ascii ''Kein spezifischer Lab-Kontext angegeben''
          | None \<Rightarrow> ascii ''Kein spezifischer Lab-Kontext angegeben'') @ nl @ nl @
         ascii ''Gib einen Hinweis auf Level ''"])
  apply (rule exI)
  apply (rule allI)
  apply (simp only: append_assoc)
  done

section \<open>Facts about the upload\<close>




lemma extract_text_calls:
  "snd (extract_text env file_ext file) = [DecodeUtf8]
   \<or> snd (extract_text env file_ext file) = [ReadPdf (ascii ''/tmp/'' @ UploadFile.filename file)]"
  by (simp add: extract_text_def)

lemma unsupported_detail:
  "ascii ''Nur '' @ join (ascii '', '') [ascii ''.pdf'', ascii ''.sql'', ascii ''.md'', ascii ''.txt'']
     @ ascii '' Dateien werden unterst'' @ [252] @ ascii ''tzt''
   = ascii ''Nur .pdf, .sql, .md, .txt Dateien werden unterst'' @ [252] @ ascii ''tzt''"
  by (simp add: ascii_def)

lemma sample_file_ext:
  "snd (splitext (str_lower sample_env (UploadFile.filename sample_file))) = ascii ''.txt''"
  by (simp add: sample_env_def sample_file_def splitext_def rfind_def ascii_def Let_def)


section \<open>The hint level\<close>

text \<open>
  C1. Whatever integer a request carries as its hint level, \<open>get_hint\<close> works with that level
  clamped into 1..4 and never fails because of it. The request behaves as the one that
  carries the clamped level (a level of at most 1, such as 0 or -5, as level 1; a level of
  at least 4, such as 9 or 10, as level 4). Neither a subscript of the level table nor the
  formatting of the level raises. The only errors are the status 503 of a handle that is
  not set and the status 500 of a chain that raises: with both handles set the prompts are
  built, the chain is invoked, and whenever it returns, the request is answered with a
  response that carries the clamped level.
\<close>

theorem get_hint_clamps_hint_level:
  "get_hint env (request\<lparr>HintRequest.hint_level := L\<rparr>)
     = get_hint env (request\<lparr>HintRequest.hint_level := max 1 (min 4 L)\<rparr>)
   \<and> 1 \<le> max 1 (min 4 L) \<and> max 1 (min 4 L) \<le> 4
   \<and> (L \<le> 1 \<longrightarrow> get_hint env (request\<lparr>HintRequest.hint_level := L\<rparr>)
                  = get_hint env (request\<lparr>HintRequest.hint_level := 1\<rparr>))
   \<and> (4 \<le> L \<longrightarrow> get_hint env (request\<lparr>HintRequest.hint_level := L\<rparr>)
                  = get_hint env (request\<lparr>HintRequest.hint_level := 4\<rparr>))
   \<and> (\<forall>response calls. get_hint env (request\<lparr>HintRequest.hint_level := L\<rparr>) = (Inr response, calls)
         \<longrightarrow> HintResponse.hint_level response = max 1 (min 4 L))
   \<and> (\<forall>k. fst (get_hint env (request\<lparr>HintRequest.hint_level := L\<rparr>)) \<noteq> Inl (KeyError k))
   \<and> fst (get_hint env (request\<lparr>HintRequest.hint_level := L\<rparr>)) \<noteq> Inl ValueError
   \<and> (llm env = None \<or> vectorstore env = None \<longrightarrow>
        get_hint env (request\<lparr>HintRequest.hint_level := L\<rparr>)
          = (Inl (HTTPException 503 (ascii ''Backend-Services nicht verf'' @ [252] @ ascii ''gbar'')), []))
   \<and> (\<forall>chain vs. llm env = Some chain \<longrightarrow> vectorstore env = Some vs \<longrightarrow>
        (\<exists>system_prompt user_prompt info.
            build_hint_prompt (question request) (search_context vs (question request))
                (lab_context request) (max 1 (min 4 L))
              = Inr (system_prompt, user_prompt)
          \<and> HINT_LEVELS (max 1 (min 4 L)) = Some info
          \<and> snd (get_hint env (request\<lparr>HintRequest.hint_level := L\<rparr>))
              = [SimilaritySearch (question request) 8, ChainInvoke system_prompt user_prompt]
          \<and> (\<forall>h. chain system_prompt user_prompt = Inr h \<longrightarrow>
                fst (get_hint env (request\<lparr>HintRequest.hint_level := L\<rparr>))
                  = Inr \<lparr>hint = h, hint_level = max 1 (min 4 L), hint_level_name = name info,
                         remaining_levels = 4 - max 1 (min 4 L)\<rparr>)
          \<and> (\<forall>e. chain system_prompt user_prompt = Inl e \<longrightarrow>
                fst (get_hint env (request\<lparr>HintRequest.hint_level := L\<rparr>))
                  = Inl (HTTPException 500 (ascii ''Fehler bei der Hint-Generierung: '' @ e)))))"
proof -
  let ?r = "request\<lparr>HintRequest.hint_level := L\<rparr>"
  have same: "get_hint env (request\<lparr>HintRequest.hint_level := a\<rparr>)
                = get_hint env (request\<lparr>HintRequest.hint_level := b\<rparr>)"
    if "max 1 (min 4 a) = max 1 (min 4 b)" for a b :: int
    using that by (cases "llm env"; cases "vectorstore env"; simp add: get_hint_def)
  have c1: "get_hint env ?r = get_hint env (request\<lparr>HintRequest.hint_level := max 1 (min 4 L)\<rparr>)"
    by (rule same) simp
  have c3: "L \<le> 1 \<longrightarrow> get_hint env ?r = get_hint env (request\<lparr>HintRequest.hint_level := 1\<rparr>)"
    by (auto intro!: same)
  have c4: "4 \<le> L \<longrightarrow> get_hint env ?r = get_hint env (request\<lparr>HintRequest.hint_level := 4\<rparr>)"
    by (auto intro!: same)
  have c5: "\<forall>response calls. get_hint env ?r = (Inr response, calls)
              \<longrightarrow> HintResponse.hint_level response = max 1 (min 4 L)"
    using get_hint_Inr_level [of env ?r] by auto
  have c8: "llm env = None \<or> vectorstore env = None \<longrightarrow>
        get_hint env ?r
          = (Inl (HTTPException 503 (ascii ''Backend-Services nicht verf'' @ [252] @ ascii ''gbar'')), [])"
    by (auto simp add: get_hint_def split: option.splits)
  have c9: "\<exists>system_prompt user_prompt info.
            build_hint_prompt (question request) (search_context vs (question request))
                (lab_context request) (max 1 (min 4 L))
              = Inr (system_prompt, user_prompt)
          \<and> HINT_LEVELS (max 1 (min 4 L)) = Some info
          \<and> snd (get_hint env ?r)
              = [SimilaritySearch (question request) 8, ChainInvoke system_prompt user_prompt]
          \<and> (\<forall>h. chain system_prompt user_prompt = Inr h \<longrightarrow>
                fst (get_hint env ?r)
                  = Inr \<lparr>hint = h, hint_level = max 1 (min 4 L), hint_level_name = name info,
                         remaining_levels = 4 - max 1 (min 4 L)\<rparr>)
          \<and> (\<forall>e. chain system_prompt user_prompt = Inl e \<longrightarrow>
                fst (get_hint env ?r)
                  = Inl (HTTPException 500 (ascii ''Fehler bei der Hint-Generierung: '' @ e)))"
    if h: "llm env = Some chain" "vectorstore env = Some vs" for chain vs
  proof -
    from get_hint_run [OF h, of ?r] obtain sp up info where
      b': "build_hint_prompt (question ?r) (search_context vs (question ?r))
                (lab_context ?r) (max 1 (min 4 (HintRequest.hint_level ?r))) = Inr (sp, up)"
      and i': "HINT_LEVELS (max 1 (min 4 (HintRequest.hint_level ?r))) = Some info"
      and g': "get_hint env ?r =
              (case chain sp up of
                 Inl e \<Rightarrow> Inl (HTTPException 500 (ascii ''Fehler bei der Hint-Generierung: '' @ e))
               | Inr h \<Rightarrow>
                   Inr \<lparr>hint = h, hint_level = max 1 (min 4 (HintRequest.hint_level ?r)),
                        hint_level_name = name info,
                        remaining_levels = 4 - max 1 (min 4 (HintRequest.hint_level ?r))\<rparr>,
               [SimilaritySearch (question ?r) 8, ChainInvoke sp up])"
      by blast
    from b' have b: "build_hint_prompt (question request) (search_context vs (question request))
                (lab_context request) (max 1 (min 4 L)) = Inr (sp, up)"
      by simp
    from i' have i: "HINT_LEVELS (max 1 (min 4 L)) = Some info"
      by simp
    from g' have g: "get_hint env ?r =
              (case chain sp up of
                 Inl e \<Rightarrow> Inl (HTTPException 500 (ascii ''Fehler bei der Hint-Generierung: '' @ e))
               | Inr h \<Rightarrow>
                   Inr \<lparr>hint = h, hint_level = max 1 (min 4 L), hint_level_name = name info,
                        remaining_levels = 4 - max 1 (min 4 L)\<rparr>,
               [SimilaritySearch (question request) 8, ChainInvoke sp up])"
      by (simp split: sum.splits)
    from g have "snd (get_hint env ?r) = [SimilaritySearch (question request) 8, ChainInvoke sp up]"
      and "\<forall>h. chain sp up = Inr h \<longrightarrow>
                fst (get_hint env ?r)
                  = Inr \<lparr>hint = h, hint_level = max 1 (min 4 L), hint_level_name = name info,
                         remaining_levels = 4 - max 1 (min 4 L)\<rparr>"
      and "\<forall>e. chain sp up = Inl e \<longrightarrow>
                fst (get_hint env ?r)
                  = Inl (HTTPException 500 (ascii ''Fehler bei der Hint-Generierung: '' @ e))"
      by simp_all
    with b i show ?thesis by blast
  qed
  have c67: "(\<forall>k. fst (get_hint env ?r) \<noteq> Inl (KeyError k)) \<and> fst (get_hint env ?r) \<noteq> Inl ValueError"
  proof (cases "llm env = None \<or> vectorstore env = None")
    case True
    with c8 show ?thesis by simp
  next
    case False
    then obtain chain vs where h: "llm env = Some chain" "vectorstore env = Some vs" by auto
    from c9 [OF h] obtain sp up where
      "\<forall>h. chain sp up = Inr h \<longrightarrow> (\<exists>r. fst (get_hint env ?r) = Inr r)"
      "\<forall>e. chain sp up = Inl e \<longrightarrow> (\<exists>s d. fst (get_hint env ?r) = Inl (HTTPException s d))"
      by blast
    then show ?thesis by (cases "chain sp up") auto
  qed
  from c1 c3 c4 c5 c67 c8 c9 show ?thesis by simp
qed

theorem get_hint_clamps_hint_level_witness:
  "(- 5::int) \<le> 1
   \<and> get_hint sample_env (sample_request\<lparr>HintRequest.hint_level := - 5\<rparr>)
       = get_hint sample_env (sample_request\<lparr>HintRequest.hint_level := 1\<rparr>)
   \<and> llm sample_env = Some (\<lambda>system_prompt user_prompt. Inr (ascii ''Denke an das Gateway.''))
   \<and> vectorstore sample_env = Some sample_vectorstore
   \<and> fst (get_hint sample_env (sample_request\<lparr>HintRequest.hint_level := - 5\<rparr>))
       = Inr \<lparr>hint = ascii ''Denke an das Gateway.'', hint_level = 1,
              hint_level_name = ascii ''Konzept'', remaining_levels = 3\<rparr>"
proof -
  let ?chain = "\<lambda>system_prompt user_prompt. Inr (ascii ''Denke an das Gateway.'') :: exn + str"
  note t = get_hint_clamps_hint_level [where env = sample_env and request = sample_request and L = "- 5"]
  have l: "llm sample_env = Some ?chain" and v: "vectorstore sample_env = Some sample_vectorstore"
    by (simp_all add: sample_env_def)
  have e: "get_hint sample_env (sample_request\<lparr>HintRequest.hint_level := - 5\<rparr>)
             = get_hint sample_env (sample_request\<lparr>HintRequest.hint_level := 1\<rparr>)"
    using t by simp
  from t l v obtain info where i: "HINT_LEVELS (max 1 (min 4 (- 5))) = Some info"
    and r: "fst (get_hint sample_env (sample_request\<lparr>HintRequest.hint_level := - 5\<rparr>))
       = Inr \<lparr>hint = ascii ''Denke an das Gateway.'', hint_level = max 1 (min 4 (- 5)),
              hint_level_name = name info, remaining_levels = 4 - max 1 (min 4 (- 5))\<rparr>"
    by auto
  from i have "name info = ascii ''Konzept''"
    using HINT_LEVELS_names [of 1 info] by simp
  with r e l v show ?thesis by simp
qed

text \<open>
  C2, as amended. A response of \<open>get_hint\<close> carries the clamped level L, 4 - L as its
  remaining levels (a number in 0..3, which is 0 exactly at level 4), and as its level name
  the name that the table gives to L. The four names are German: Konzept at level 1,
  Tool/Bereich at level 2, Syntax/Weg at level 3 and Loesung (spelt with an o umlaut, code
  point 246) at level 4.
\<close>

theorem get_hint_response_level_fields:
  assumes "get_hint env request = (Inr response, calls)"
  shows "HintResponse.hint_level response = max 1 (min 4 (HintRequest.hint_level request))
       \<and> remaining_levels response = 4 - HintResponse.hint_level response
       \<and> 0 \<le> remaining_levels response \<and> remaining_levels response \<le> 3
       \<and> (remaining_levels response = 0 \<longleftrightarrow> HintResponse.hint_level response = 4)
       \<and> hint_level_name response
            \<in> {ascii ''Konzept'', ascii ''Tool/Bereich'', ascii ''Syntax/Weg'',
               ascii ''L'' @ [246] @ ascii ''sung''}
       \<and> (HintResponse.hint_level response = 1 \<longrightarrow> hint_level_name response = ascii ''Konzept'')
       \<and> (HintResponse.hint_level response = 2
            \<longrightarrow> hint_level_name response = ascii ''Tool/Bereich'')
       \<and> (HintResponse.hint_level response = 3
            \<longrightarrow> hint_level_name response = ascii ''Syntax/Weg'')
       \<and> (HintResponse.hint_level response = 4
            \<longrightarrow> hint_level_name response = ascii ''L'' @ [246] @ ascii ''sung'')"
proof -
  let ?L = "max 1 (min 4 (HintRequest.hint_level request))"
  obtain info where t: "HINT_LEVELS ?L = Some info"
    and l: "HintResponse.hint_level response = ?L"
    and n: "hint_level_name response = name info"
    and r: "remaining_levels response = 4 - ?L"
    using get_hint_Inr_level [OF assms] by blast
  note names = HINT_LEVELS_names [OF t]
  have a: "remaining_levels response = 4 - HintResponse.hint_level response"
    using l r by simp
  have b: "0 \<le> remaining_levels response \<and> remaining_levels response \<le> 3"
    using r by auto
  have c: "remaining_levels response = 0 \<longleftrightarrow> HintResponse.hint_level response = 4"
    using a by auto
  have d: "hint_level_name response
            \<in> {ascii ''Konzept'', ascii ''Tool/Bereich'', ascii ''Syntax/Weg'',
               ascii ''L'' @ [246] @ ascii ''sung''}"
    using names n by auto
  have e: "HintResponse.hint_level response = 1 \<longrightarrow> hint_level_name response = ascii ''Konzept''"
    using names n l by auto
  have e2: "HintResponse.hint_level response = 2
            \<longrightarrow> hint_level_name response = ascii ''Tool/Bereich''"
    using names n l by auto
  have e3: "HintResponse.hint_level response = 3
            \<longrightarrow> hint_level_name response = ascii ''Syntax/Weg''"
    using names n l by auto
  have f: "HintResponse.hint_level response = 4
            \<longrightarrow> hint_level_name response = ascii ''L'' @ [246] @ ascii ''sung''"
    using names n l by auto
  from l a b c d e e2 e3 f show ?thesis by blast
qed

theorem get_hint_response_level_fields_witness:
  "fst (get_hint sample_env (sample_request\<lparr>HintRequest.hint_level := 9\<rparr>))
     = Inr \<lparr>hint = ascii ''Denke an das Gateway.'', hint_level = 4,
            hint_level_name = ascii ''L'' @ [246] @ ascii ''sung'', remaining_levels = 0\<rparr>
   \<and> max 1 (min 4 (9::int)) = 4
   \<and> fst (get_hint sample_env (sample_request\<lparr>HintRequest.hint_level := 2\<rparr>))
     = Inr \<lparr>hint = ascii ''Denke an das Gateway.'', hint_level = 2,
            hint_level_name = ascii ''Tool/Bereich'', remaining_levels = 2\<rparr>"
proof -
  obtain i4 where i4: "HINT_LEVELS (max 1 (min 4 9)) = Some i4"
    using HINT_LEVELS_clamped by blast
  obtain i2 where i2: "HINT_LEVELS (max 1 (min 4 2)) = Some i2"
    using HINT_LEVELS_clamped by blast
  let ?r9 = "sample_request\<lparr>HintRequest.hint_level := 9\<rparr>"
  let ?r2 = "sample_request\<lparr>HintRequest.hint_level := 2\<rparr>"
  have f4: "fst (get_hint sample_env ?r9)
     = Inr \<lparr>hint = ascii ''Denke an das Gateway.'', hint_level = 4,
            hint_level_name = name i4, remaining_levels = 0\<rparr>"
    using sample_run [OF i4] by simp
  have f2: "fst (get_hint sample_env ?r2)
     = Inr \<lparr>hint = ascii ''Denke an das Gateway.'', hint_level = 2,
            hint_level_name = name i2, remaining_levels = 2\<rparr>"
    using sample_run [OF i2] by simp
  have run4: "get_hint sample_env ?r9
     = (Inr \<lparr>hint = ascii ''Denke an das Gateway.'', hint_level = 4,
             hint_level_name = name i4, remaining_levels = 0\<rparr>, snd (get_hint sample_env ?r9))"
    by (metis f4 prod.collapse)
  have run2: "get_hint sample_env ?r2
     = (Inr \<lparr>hint = ascii ''Denke an das Gateway.'', hint_level = 2,
             hint_level_name = name i2, remaining_levels = 2\<rparr>, snd (get_hint sample_env ?r2))"
    by (metis f2 prod.collapse)
  from get_hint_response_level_fields [OF run4]
  have n4: "name i4 = ascii ''L'' @ [246] @ ascii ''sung''" by simp
  from get_hint_response_level_fields [OF run2]
  have n2: "name i2 = ascii ''Tool/Bereich''" by simp
  from f4 f2 n4 n2 show ?thesis by simp
qed

text \<open>
  The names are not the English ones: at level 1 the response says Konzept, not Concept,
  and at level 4 it says Loesung (with its umlaut), not Full Solution.
\<close>

theorem get_hint_level_name_counterexample:
  "fst (get_hint sample_env (sample_request\<lparr>HintRequest.hint_level := 1\<rparr>))
     = Inr \<lparr>hint = ascii ''Denke an das Gateway.'', hint_level = 1,
            hint_level_name = ascii ''Konzept'', remaining_levels = 3\<rparr>
   \<and> ascii ''Konzept'' \<noteq> ascii ''Concept''
   \<and> fst (get_hint sample_env (sample_request\<lparr>HintRequest.hint_level := 4\<rparr>))
     = Inr \<lparr>hint = ascii ''Denke an das Gateway.'', hint_level = 4,
            hint_level_name = ascii ''L'' @ [246] @ ascii ''sung'', remaining_levels = 0\<rparr>
   \<and> ascii ''L'' @ [246] @ ascii ''sung'' \<noteq> ascii ''Full Solution''"
proof -
  obtain i1 where i1: "HINT_LEVELS (max 1 (min 4 1)) = Some i1" "name i1 = ascii ''Konzept''"
    by (simp add: HINT_LEVELS_def)
  obtain i4 where i4: "HINT_LEVELS (max 1 (min 4 4)) = Some i4"
      "name i4 = ascii ''L'' @ [246] @ ascii ''sung''"
    by (simp add: HINT_LEVELS_def)
  have a: "ascii ''Konzept'' \<noteq> ascii ''Concept''"
    by (simp add: ascii_def)
  have b: "ascii ''L'' @ [246] @ ascii ''sung'' \<noteq> ascii ''Full Solution''"
    by (simp add: ascii_def)
  show ?thesis
    using sample_run [OF i1(1)] sample_run [OF i4(1)] i1(2) i4(2) a b
    by simp
qed

section \<open>Levels outside the table\<close>

text \<open>
  C10, as amended. \<open>build_hint_prompt\<close> fails for exactly the levels whose decimal form has
  more than 4300 digits, and then with the \<open>ValueError\<close> of the integer formatting; the
  lookup in the level table never raises. For every other level outside 1..4 it returns its
  two prompts, and they are the prompts of level 1 with the passed number in the place of
  the 1: the system prompt states the level with the name Konzept and the instruction of
  level 1, and the user prompt carries the question and the context and ends by asking for
  a hint on that level, named Konzept.
\<close>

theorem build_hint_prompt_unknown_level:
  "(build_hint_prompt q c l L = Inl ValueError \<longleftrightarrow> 10 ^ int_max_str_digits \<le> \<bar>L\<bar>)
   \<and> (\<forall>e. build_hint_prompt q c l L = Inl e \<longrightarrow> e = ValueError)
   \<and> (\<bar>L\<bar> < 10 ^ int_max_str_digits \<longrightarrow> \<not> isl (build_hint_prompt q c l L))
   \<and> (\<bar>L\<bar> < 10 ^ int_max_str_digits \<longrightarrow> L \<notin> {1, 2, 3, 4} \<longrightarrow>
        (\<exists>s system_prompt user_prompt.
            str_int L = Inr s \<and> s \<noteq> []
          \<and> build_hint_prompt q c l L = Inr (system_prompt, user_prompt)
          \<and> sublist (ascii ''AKTUELLER HINT-LEVEL: '' @ s @ ascii '' ('' @ ascii ''Konzept'' @
                      ascii '')'' @ nl @ ascii ''ANWEISUNG: '' @
                 ascii ''Erkl'' @ [228] @
                 ascii ''re nur das grundlegende Konzept oder die Theorie hinter der Frage. '' @
                 ascii ''Gib KEINE konkreten Befehle oder Tools an. Halte die Antwort kurz (2-3 S'' @
                 [228] @ ascii ''tze).'' @ nl)
               system_prompt
          \<and> suffix (ascii ''Gib einen Hinweis auf Level '' @ s @ ascii '' ('' @ ascii ''Konzept'' @
                     ascii '').'')
               user_prompt
          \<and> sublist q user_prompt \<and> sublist c user_prompt
          \<and> (\<exists>system_prompt1 user_prompt1 pre post upre upost.
                 build_hint_prompt q c l 1 = Inr (system_prompt1, user_prompt1)
               \<and> system_prompt = pre @ s @ post \<and> system_prompt1 = pre @ ascii ''1'' @ post
               \<and> user_prompt = upre @ s @ upost \<and> user_prompt1 = upre @ ascii ''1'' @ upost)))"
proof -
  have a: "build_hint_prompt q c l L = Inl ValueError \<longleftrightarrow> 10 ^ int_max_str_digits \<le> \<bar>L\<bar>"
    using build_hint_prompt_result [of L q c l] str_int_ValueError_iff [of L] str_int_cases [of L]
    by (auto split: sum.splits)
  have b: "\<forall>e. build_hint_prompt q c l L = Inl e \<longrightarrow> e = ValueError"
    using build_hint_prompt_errors [of q c l L] by blast
  have total: "\<bar>L\<bar> < 10 ^ int_max_str_digits \<longrightarrow> \<not> isl (build_hint_prompt q c l L)"
    using build_hint_prompt_errors [of q c l L]
    by (cases "build_hint_prompt q c l L") auto
  have fallback: "\<exists>s system_prompt user_prompt.
            str_int L = Inr s \<and> s \<noteq> []
          \<and> build_hint_prompt q c l L = Inr (system_prompt, user_prompt)
          \<and> sublist (ascii ''AKTUELLER HINT-LEVEL: '' @ s @ ascii '' ('' @ ascii ''Konzept'' @
                      ascii '')'' @ nl @ ascii ''ANWEISUNG: '' @
                 ascii ''Erkl'' @ [228] @
                 ascii ''re nur das grundlegende Konzept oder die Theorie hinter der Frage. '' @
                 ascii ''Gib KEINE konkreten Befehle oder Tools an. Halte die Antwort kurz (2-3 S'' @
                 [228] @ ascii ''tze).'' @ nl)
               system_prompt
          \<and> suffix (ascii ''Gib einen Hinweis auf Level '' @ s @ ascii '' ('' @ ascii ''Konzept'' @
                     ascii '').'')
               user_prompt
          \<and> sublist q user_prompt \<and> sublist c user_prompt
          \<and> (\<exists>system_prompt1 user_prompt1 pre post upre upost.
                 build_hint_prompt q c l 1 = Inr (system_prompt1, user_prompt1)
               \<and> system_prompt = pre @ s @ post \<and> system_prompt1 = pre @ ascii ''1'' @ post
               \<and> user_prompt = upre @ s @ upost \<and> user_prompt1 = upre @ ascii ''1'' @ upost)"
    if small: "\<bar>L\<bar> < 10 ^ int_max_str_digits" and out: "L \<notin> {1, 2, 3, 4}"
  proof -
    let ?s = "if L < 0 then 45 # digits (nat \<bar>L\<bar>) else digits (nat \<bar>L\<bar>)"
    have s: "str_int L = Inr ?s"
      using small by (rule str_int_Inr)
    have ne: "?s \<noteq> []"
      using digits_not_Nil by simp
    from out have none: "HINT_LEVELS L = None"
      using HINT_LEVELS_None_iff by blast
    obtain info where one: "HINT_LEVELS 1 = Some info"
      and bL: "build_hint_prompt q c l L
                = Inr (system_prompt_text ?s info, user_prompt_text q c l ?s info)"
      using build_hint_prompt_result [of L q c l] none s by auto
    have nm: "name info = ascii ''Konzept''"
      using HINT_LEVELS_names [OF one] by simp
    note ins = HINT_LEVELS_1_instruction [OF one]
    have b1: "build_hint_prompt q c l 1
                = Inr (system_prompt_text (ascii ''1'') info, user_prompt_text q c l (ascii ''1'') info)"
      using build_hint_prompt_level [of 1 q c l] one by (simp add: ascii_def)
    have line: "sublist (ascii ''AKTUELLER HINT-LEVEL: '' @ ?s @ ascii '' ('' @ ascii ''Konzept'' @
                      ascii '')'' @ nl @ ascii ''ANWEISUNG: '' @
                 ascii ''Erkl'' @ [228] @
                 ascii ''re nur das grundlegende Konzept oder die Theorie hinter der Frage. '' @
                 ascii ''Gib KEINE konkreten Befehle oder Tools an. Halte die Antwort kurz (2-3 S'' @
                 [228] @ ascii ''tze).'' @ nl)
               (system_prompt_text ?s info)"
      using system_prompt_text_level_line [of ?s info] by (simp only: nm ins append_assoc)
    have suf: "suffix (ascii ''Gib einen Hinweis auf Level '' @ ?s @ ascii '' ('' @ ascii ''Konzept'' @
                     ascii '').'')
               (user_prompt_text q c l ?s info)"
      using user_prompt_text_suffix [of ?s info q c l] by (simp only: nm)
    obtain pre post where sp: "\<forall>s. system_prompt_text s info = pre @ s @ post"
      using system_prompt_text_number by blast
    obtain upre upost where up: "\<forall>s. user_prompt_text q c l s info = upre @ s @ upost"
      using user_prompt_text_number by blast
    have rel: "\<exists>system_prompt1 user_prompt1 pre post upre upost.
                 build_hint_prompt q c l 1 = Inr (system_prompt1, user_prompt1)
               \<and> system_prompt_text ?s info = pre @ ?s @ post
               \<and> system_prompt1 = pre @ ascii ''1'' @ post
               \<and> user_prompt_text q c l ?s info = upre @ ?s @ upost
               \<and> user_prompt1 = upre @ ascii ''1'' @ upost"
      apply (rule exI [where x = "system_prompt_text (ascii ''1'') info"])
      apply (rule exI [where x = "user_prompt_text q c l (ascii ''1'') info"])
      apply (rule exI [where x = pre])
      apply (rule exI [where x = post])
      apply (rule exI [where x = upre])
      apply (rule exI [where x = upost])
      apply (intro conjI)
      apply (rule b1)
      apply (rule sp [rule_format])
      apply (rule sp [rule_format])
      apply (rule up [rule_format])
      apply (rule up [rule_format])
      done
    note parts = s ne bL line suf
      user_prompt_text_contains [where q = q and c = c and l = l and s = ?s and info = info] rel
    show ?thesis
      apply (rule exI [where x = ?s])
      apply (rule exI [where x = "system_prompt_text ?s info"])
      apply (rule exI [where x = "user_prompt_text q c l ?s info"])
      apply (intro conjI)
      apply (rule parts)+
      done
  qed
  from a b total fallback show ?thesis by blast
qed

theorem build_hint_prompt_unknown_level_witness:
  "\<bar>7::int\<bar> < 10 ^ int_max_str_digits \<and> (7::int) \<notin> {1, 2, 3, 4}
   \<and> str_int 7 = Inr (ascii ''7'')
   \<and> \<not> isl (build_hint_prompt (ascii ''Was ist DNS?'') [] None 7)
   \<and> sublist (ascii ''AKTUELLER HINT-LEVEL: '' @ ascii ''7'' @ ascii '' ('' @ ascii ''Konzept'' @
               ascii '')'' @ nl @ ascii ''ANWEISUNG: '' @
                 ascii ''Erkl'' @ [228] @
                 ascii ''re nur das grundlegende Konzept oder die Theorie hinter der Frage. '' @
                 ascii ''Gib KEINE konkreten Befehle oder Tools an. Halte die Antwort kurz (2-3 S'' @
                 [228] @ ascii ''tze).'' @ nl)
        (fst (projr (build_hint_prompt (ascii ''Was ist DNS?'') [] None 7)))
   \<and> suffix (ascii ''Gib einen Hinweis auf Level '' @ ascii ''7'' @ ascii '' ('' @ ascii ''Konzept'' @
              ascii '').'')
        (snd (projr (build_hint_prompt (ascii ''Was ist DNS?'') [] None 7)))"
proof -
  have r: "\<bar>7::int\<bar> < 10 ^ int_max_str_digits"
    by (intro below_ten_in_range) simp
  have d: "str_int 7 = Inr (ascii ''7'')"
    using str_int_digit [of 7] by (simp add: ascii_def)
  show ?thesis
    using build_hint_prompt_unknown_level [of "ascii ''Was ist DNS?''" "[]" None 7] r d
    by auto
qed

text \<open>
  The function is not total: the level \<open>10 ^ 4300\<close>, which is outside the table, makes the
  f-string raise.
\<close>

theorem build_hint_prompt_too_long_level:
  "int_max_str_digits = 4300
   \<and> (10 ^ int_max_str_digits :: int) \<notin> {1, 2, 3, 4}
   \<and> build_hint_prompt (ascii ''Was ist DNS?'') [] None (10 ^ int_max_str_digits) = Inl ValueError"
proof -
  have "(10::int) ^ 1 \<le> 10 ^ int_max_str_digits"
    using int_max_str_digits_pos by (intro power_increasing) auto
  then have big: "(10::int) \<le> 10 ^ int_max_str_digits" by simp
  then have out: "(10 ^ int_max_str_digits :: int) \<notin> {1, 2, 3, 4}" by auto
  from big have ab: "\<bar>10 ^ int_max_str_digits :: int\<bar> = 10 ^ int_max_str_digits" by simp
  have "str_int (10 ^ int_max_str_digits) = Inl ValueError"
    using str_int_ValueError_iff [of "10 ^ int_max_str_digits"] ab by simp
  then have raises: "build_hint_prompt (ascii ''Was ist DNS?'') [] None (10 ^ int_max_str_digits) = Inl ValueError"
    using build_hint_prompt_result [of "10 ^ int_max_str_digits" "ascii ''Was ist DNS?''" "[]" None]
    by auto
  have limit: "int_max_str_digits = 4300"
    by (simp add: int_max_str_digits_def)
  show ?thesis
    by (intro conjI) (rule limit, rule out, rule raises)
qed

section \<open>Retrieval\<close>

text \<open>
  C3, at an index that finds nothing. The search returns an empty list without raising, so
  the handler is not entered: the context is the join of no passages, the empty string, and
  not the sentence of the handler; the chain is invoked with the prompt built on it.
\<close>

theorem get_hint_empty_search_context:
  "search_context (the (vectorstore empty_index_env)) (question sample_request) = []
   \<and> ([] :: str) \<noteq> ascii ''Keine relevanten Dokumente gefunden.''
   \<and> snd (get_hint empty_index_env sample_request)
       = (case build_hint_prompt (question sample_request) [] None 1 of
            Inr (system_prompt, user_prompt) \<Rightarrow>
              [SimilaritySearch (question sample_request) 8, ChainInvoke system_prompt user_prompt]
          | Inl e \<Rightarrow> [])"
proof -
  let ?vs = "\<lparr>similarity_search = (\<lambda>q k. Inr []), add_documents = (\<lambda>documents. Inr ())\<rparr> :: VectorStore"
  let ?chain = "\<lambda>system_prompt user_prompt. Inr (ascii ''Denke an das Gateway.'') :: exn + str"
  have l: "llm empty_index_env = Some ?chain" and v: "vectorstore empty_index_env = Some ?vs"
    by (simp_all add: empty_index_env_def sample_env_def)
  have a: "search_context (the (vectorstore empty_index_env)) (question sample_request) = []"
    by (simp add: search_context_def empty_index_env_def)
  have a': "search_context ?vs (question sample_request) = []"
    by (simp add: search_context_def)
  have b: "([] :: str) \<noteq> ascii ''Keine relevanten Dokumente gefunden.''"
    by (simp add: ascii_def)
  have r: "lab_context sample_request = None" "max 1 (min 4 (HintRequest.hint_level sample_request)) = 1"
    by (simp_all add: sample_request_def)
  from get_hint_run [OF l v, of sample_request] obtain sp up where
    "build_hint_prompt (question sample_request) (search_context ?vs (question sample_request))
        (lab_context sample_request) (max 1 (min 4 (HintRequest.hint_level sample_request)))
      = Inr (sp, up)"
    "snd (get_hint empty_index_env sample_request)
      = [SimilaritySearch (question sample_request) 8, ChainInvoke sp up]"
    by auto
  then have c: "snd (get_hint empty_index_env sample_request)
       = (case build_hint_prompt (question sample_request) [] None 1 of
            Inr (system_prompt, user_prompt) \<Rightarrow>
              [SimilaritySearch (question sample_request) 8, ChainInvoke system_prompt user_prompt]
          | Inl e \<Rightarrow> [])"
    by (simp add: a' r)
  from a b c show ?thesis by blast
qed

section \<open>The instructions to the generator\<close>

text \<open>
  C4. Whatever the question, the context and the lab context are, the system prompt that
  \<open>build_hint_prompt\<close> returns contains the lines that forbid inventing values that are not
  in the context or the documents and inventing concrete IP addresses, and the lines that
  tell the generator to say so when the context is not enough or a piece of information is
  missing. It returns such a prompt for every level from 1 to 4, and indeed for every
  level that can be formatted.
\<close>

theorem build_hint_prompt_grounding_directive:
  "(\<forall>system_prompt user_prompt.
      build_hint_prompt q c l L = Inr (system_prompt, user_prompt) \<longrightarrow>
          sublist (ascii ''- ERFINDE KEINE Werte die nicht im Kontext oder den Unterlagen stehen'')
            system_prompt
        \<and> sublist (ascii ''- ERFINDE KEINE konkreten IP-Adressen'') system_prompt
        \<and> sublist (ascii ''- Wenn der Kontext nicht ausreicht, sage das ehrlich'') system_prompt
        \<and> sublist (ascii ''- Wenn Information fehlt, sage: '' @ [34] @
                    ascii ''Diese Information steht nicht in den Unterlagen'' @ [34]) system_prompt)
   \<and> (1 \<le> L \<longrightarrow> L \<le> 4 \<longrightarrow>
        (\<exists>system_prompt user_prompt.
          build_hint_prompt q c l L = Inr (system_prompt, user_prompt)
        \<and> sublist (ascii ''- ERFINDE KEINE Werte die nicht im Kontext oder den Unterlagen stehen'')
            system_prompt
        \<and> sublist (ascii ''- ERFINDE KEINE konkreten IP-Adressen'') system_prompt
        \<and> sublist (ascii ''- Wenn der Kontext nicht ausreicht, sage das ehrlich'') system_prompt
        \<and> sublist (ascii ''- Wenn Information fehlt, sage: '' @ [34] @
                    ascii ''Diese Information steht nicht in den Unterlagen'' @ [34]) system_prompt))
   \<and> (\<bar>L\<bar> < 10 ^ int_max_str_digits \<longrightarrow>
        (\<exists>system_prompt user_prompt.
          build_hint_prompt q c l L = Inr (system_prompt, user_prompt)
        \<and> sublist (ascii ''- ERFINDE KEINE Werte die nicht im Kontext oder den Unterlagen stehen'')
            system_prompt
        \<and> sublist (ascii ''- ERFINDE KEINE konkreten IP-Adressen'') system_prompt
        \<and> sublist (ascii ''- Wenn der Kontext nicht ausreicht, sage das ehrlich'') system_prompt
        \<and> sublist (ascii ''- Wenn Information fehlt, sage: '' @ [34] @
                    ascii ''Diese Information steht nicht in den Unterlagen'' @ [34]) system_prompt))"
proof -
  have holds: "sublist (ascii ''- ERFINDE KEINE Werte die nicht im Kontext oder den Unterlagen stehen'')
            system_prompt
        \<and> sublist (ascii ''- ERFINDE KEINE konkreten IP-Adressen'') system_prompt
        \<and> sublist (ascii ''- Wenn der Kontext nicht ausreicht, sage das ehrlich'') system_prompt
        \<and> sublist (ascii ''- Wenn Information fehlt, sage: '' @ [34] @
                    ascii ''Diese Information steht nicht in den Unterlagen'' @ [34]) system_prompt"
    if "build_hint_prompt q c l L = Inr (system_prompt, user_prompt)" for system_prompt user_prompt
  proof -
    obtain info where r: "build_hint_prompt q c l L =
         (case str_int L of
            Inl e \<Rightarrow> Inl e
          | Inr s \<Rightarrow> Inr (system_prompt_text s info, user_prompt_text q c l s info))"
      using build_hint_prompt_result [of L q c l] by blast
    show ?thesis
    proof (cases "str_int L")
      case (Inl e)
      with r that show ?thesis by simp
    next
      case (Inr s)
      with r that have "system_prompt = system_prompt_text s info" by simp
      then show ?thesis
        using system_prompt_text_directives [of s info] by simp
    qed
  qed
  have returns: "\<exists>system_prompt user_prompt. build_hint_prompt q c l L = Inr (system_prompt, user_prompt)"
    if "\<bar>L\<bar> < 10 ^ int_max_str_digits"
  proof (cases "build_hint_prompt q c l L")
    case (Inl e)
    with that show ?thesis
      using build_hint_prompt_errors [of q c l L e] by simp
  next
    case (Inr p)
    then show ?thesis by (cases p) simp
  qed
  have level: "\<bar>L\<bar> < 10 ^ int_max_str_digits" if "1 \<le> L" "L \<le> 4"
    using that by (intro below_ten_in_range) simp
  from holds returns level show ?thesis by blast
qed

theorem build_hint_prompt_grounding_directive_witness:
  "(1::int) \<le> 1 \<and> (1::int) \<le> 4 \<and> \<bar>1::int\<bar> < 10 ^ int_max_str_digits
   \<and> \<not> isl (build_hint_prompt (ascii ''Was ist DNS?'') [] None 1)
   \<and> sublist (ascii ''- ERFINDE KEINE Werte die nicht im Kontext oder den Unterlagen stehen'')
     (fst (projr (build_hint_prompt (ascii ''Was ist DNS?'') [] None 1)))
   \<and> sublist (ascii ''- Wenn der Kontext nicht ausreicht, sage das ehrlich'')
     (fst (projr (build_hint_prompt (ascii ''Was ist DNS?'') [] None 1)))"
proof -
  have r: "\<bar>1::int\<bar> < 10 ^ int_max_str_digits"
    by (intro below_ten_in_range) simp
  show ?thesis
    using build_hint_prompt_grounding_directive [of "ascii ''Was ist DNS?''" "[]" None 1] r
    by auto
qed

section \<open>The question\<close>

text \<open>
  C5, at a question of three spaces. The endpoint does not look at the question: although
  it is empty after trimming, the request is not rejected. The index is searched for it,
  the prompts are built on it, the chain is invoked, and the request is answered with a
  hint.
\<close>

theorem get_hint_blank_question_runs:
  "strip (ascii ''   '') = []
   \<and> fst (get_hint sample_env (sample_request\<lparr>question := ascii ''   ''\<rparr>))
       = Inr \<lparr>hint = ascii ''Denke an das Gateway.'', hint_level = 1,
              hint_level_name = ascii ''Konzept'', remaining_levels = 3\<rparr>
   \<and> \<not> isl (build_hint_prompt (ascii ''   '') (search_context sample_vectorstore (ascii ''   ''))
              None 1)
   \<and> snd (get_hint sample_env (sample_request\<lparr>question := ascii ''   ''\<rparr>))
       = [SimilaritySearch (ascii ''   '') 8,
          ChainInvoke
            (fst (projr (build_hint_prompt (ascii ''   '')
                           (search_context sample_vectorstore (ascii ''   '')) None 1)))
            (snd (projr (build_hint_prompt (ascii ''   '')
                           (search_context sample_vectorstore (ascii ''   '')) None 1)))]"
proof -
  let ?chain = "\<lambda>system_prompt user_prompt. Inr (ascii ''Denke an das Gateway.'') :: exn + str"
  let ?r = "sample_request\<lparr>question := ascii ''   ''\<rparr>"
  have s: "strip (ascii ''   '') = []"
    by (simp add: strip_def ascii_def isspace_def)
  have l: "llm sample_env = Some ?chain" and v: "vectorstore sample_env = Some sample_vectorstore"
    by (simp_all add: sample_env_def)
  have f: "question ?r = ascii ''   ''" "lab_context ?r = None"
      "max 1 (min 4 (HintRequest.hint_level ?r)) = 1"
    by (simp_all add: sample_request_def)
  have f': "lab_context sample_request = None"
      "max 1 (min 4 (HintRequest.hint_level sample_request)) = 1"
    by (simp_all add: sample_request_def)
  from get_hint_run [OF l v, of ?r] obtain sp up info where
    b: "build_hint_prompt (question ?r) (search_context sample_vectorstore (question ?r))
          (lab_context ?r) (max 1 (min 4 (HintRequest.hint_level ?r))) = Inr (sp, up)"
    and i: "HINT_LEVELS (max 1 (min 4 (HintRequest.hint_level ?r))) = Some info"
    and g: "get_hint sample_env ?r =
              (case ?chain sp up of
                 Inl e \<Rightarrow> Inl (HTTPException 500 (ascii ''Fehler bei der Hint-Generierung: '' @ e))
               | Inr h \<Rightarrow>
                   Inr \<lparr>hint = h,
                        hint_level = max 1 (min 4 (HintRequest.hint_level ?r)),
                        hint_level_name = name info,
                        remaining_levels = 4 - max 1 (min 4 (HintRequest.hint_level ?r))\<rparr>,
               [SimilaritySearch (question ?r) 8, ChainInvoke sp up])"
    by blast
  from b have b': "build_hint_prompt (ascii ''   '') (search_context sample_vectorstore (ascii ''   ''))
          None 1 = Inr (sp, up)"
    by (simp only: f)
  from i have "HINT_LEVELS 1 = Some info" by (simp only: f)
  then have n: "name info = ascii ''Konzept''"
    using HINT_LEVELS_names [of 1 info] by simp
  from g have r1: "fst (get_hint sample_env ?r)
       = Inr \<lparr>hint = ascii ''Denke an das Gateway.'', hint_level = 1,
              hint_level_name = ascii ''Konzept'', remaining_levels = 3\<rparr>"
    by (simp add: f f' n)
  from g have r2: "snd (get_hint sample_env ?r) = [SimilaritySearch (ascii ''   '') 8, ChainInvoke sp up]"
    by (simp add: f f')
  from s r1 r2 b' show ?thesis by simp
qed

text \<open>
  The client does make the check that the endpoint lacks: the handler of its hint button
  shows a warning and sends no request when the question is empty after trimming.
\<close>

lemma hint_button_blank_question:
  "(strip q = [] \<longrightarrow>
      hint_button post_hint q l L = ([Warning (ascii ''Bitte gib eine Frage ein'')], []))
   \<and> (strip q \<noteq> [] \<longrightarrow>
      snd (hint_button post_hint q l L)
        = snd (post_hint \<lparr>question = q, lab_context = Some l, hint_level = L\<rparr>))"
  by (auto simp add: hint_button_def split: prod.splits sum.splits)

section \<open>Generation failure\<close>

text \<open>
  C7. When the generator is not there, the request ends in status 503; when the invocation
  of the chain raises, the request ends in status 500 with the text of the exception in its
  detail. A response is only ever built from what the chain returned in this request.
\<close>

theorem get_hint_generation_failure:
  "(llm env = None \<longrightarrow>
      get_hint env request
        = (Inl (HTTPException 503 (ascii ''Backend-Services nicht verf'' @ [252] @ ascii ''gbar'')), []))
   \<and> (\<forall>chain vs system_prompt user_prompt e.
        llm env = Some chain \<longrightarrow> vectorstore env = Some vs \<longrightarrow>
        build_hint_prompt (question request) (search_context vs (question request))
            (lab_context request) (max 1 (min 4 (HintRequest.hint_level request)))
          = Inr (system_prompt, user_prompt) \<longrightarrow>
        chain system_prompt user_prompt = Inl e \<longrightarrow>
        get_hint env request
          = (Inl (HTTPException 500 (ascii ''Fehler bei der Hint-Generierung: '' @ e)),
             [SimilaritySearch (question request) 8, ChainInvoke system_prompt user_prompt]))
   \<and> (\<forall>response calls.
        get_hint env request = (Inr response, calls) \<longrightarrow>
        (\<exists>chain system_prompt user_prompt.
           llm env = Some chain \<and> ChainInvoke system_prompt user_prompt \<in> set calls
           \<and> chain system_prompt user_prompt = Inr (hint response)))"
proof -
  have a: "llm env = None \<longrightarrow>
      get_hint env request
        = (Inl (HTTPException 503 (ascii ''Backend-Services nicht verf'' @ [252] @ ascii ''gbar'')), [])"
    by (simp add: get_hint_def)
  have b: "\<forall>chain vs system_prompt user_prompt e.
        llm env = Some chain \<longrightarrow> vectorstore env = Some vs \<longrightarrow>
        build_hint_prompt (question request) (search_context vs (question request))
            (lab_context request) (max 1 (min 4 (HintRequest.hint_level request)))
          = Inr (system_prompt, user_prompt) \<longrightarrow>
        chain system_prompt user_prompt = Inl e \<longrightarrow>
        get_hint env request
          = (Inl (HTTPException 500 (ascii ''Fehler bei der Hint-Generierung: '' @ e)),
             [SimilaritySearch (question request) 8, ChainInvoke system_prompt user_prompt])"
    by (simp add: get_hint_def Let_def)
  have c: "\<forall>response calls.
        get_hint env request = (Inr response, calls) \<longrightarrow>
        (\<exists>chain system_prompt user_prompt.
           llm env = Some chain \<and> ChainInvoke system_prompt user_prompt \<in> set calls
           \<and> chain system_prompt user_prompt = Inr (hint response))"
    by (auto simp add: get_hint_def Let_def split: option.splits sum.splits prod.splits)
  from a b c show ?thesis by blast
qed

theorem get_hint_generation_failure_witness:
  "llm llm_down_env \<noteq> None \<and> vectorstore llm_down_env = Some sample_vectorstore
   \<and> fst (get_hint llm_down_env sample_request)
       = Inl (HTTPException 500 (ascii ''Fehler bei der Hint-Generierung: '' @ ascii ''Connection error.''))
   \<and> fst (get_hint (sample_env\<lparr>llm := None\<rparr>) sample_request)
       = Inl (HTTPException 503 (ascii ''Backend-Services nicht verf'' @ [252] @ ascii ''gbar''))"
proof -
  let ?chain = "\<lambda>system_prompt user_prompt. Inl (ascii ''Connection error.'') :: exn + str"
  have l: "llm llm_down_env = Some ?chain"
    by (simp add: llm_down_env_def)
  have v: "vectorstore llm_down_env = Some sample_vectorstore"
    by (simp add: llm_down_env_def sample_env_def)
  have r: "1 \<le> max 1 (min 4 (HintRequest.hint_level sample_request))"
      "max 1 (min 4 (HintRequest.hint_level sample_request)) \<le> 4"
    by auto
  obtain sp up where b: "build_hint_prompt (question sample_request)
       (search_context sample_vectorstore (question sample_request)) (lab_context sample_request)
       (max 1 (min 4 (HintRequest.hint_level sample_request))) = Inr (sp, up)"
    using build_hint_prompt_level [OF r] by blast
  note t = get_hint_generation_failure [where env = llm_down_env and request = sample_request]
  from t l v b have down: "fst (get_hint llm_down_env sample_request)
       = Inl (HTTPException 500 (ascii ''Fehler bei der Hint-Generierung: '' @ ascii ''Connection error.''))"
    by simp
  have none: "fst (get_hint (sample_env\<lparr>llm := None\<rparr>) sample_request)
       = Inl (HTTPException 503 (ascii ''Backend-Services nicht verf'' @ [252] @ ascii ''gbar''))"
    using get_hint_generation_failure [where env = "sample_env\<lparr>llm := None\<rparr>" and request = sample_request]
    by simp
  from l v down none show ?thesis by simp
qed

section \<open>Upload\<close>

text \<open>
  C8. The type of an uploaded file is the extension of its lower-cased name. When it is not
  one of .pdf, .sql, .md and .txt, \<open>upload_document\<close> ends in an error before any
  collaborator is called: no extraction, no chunking, no index write; with the handles set
  the error is the status 400 that lists the supported types. A file of one of the four
  types passes this check: with the handles set the upload does not end in that error and
  goes on to the extraction.
\<close>

theorem upload_document_file_type_check:
  assumes "file_ext = snd (splitext (str_lower env (UploadFile.filename upload)))"
  shows "(file_ext \<notin> set [ascii ''.pdf'', ascii ''.sql'', ascii ''.md'', ascii ''.txt''] \<longrightarrow>
            isl (fst (upload_document env upload current_user))
            \<and> snd (upload_document env upload current_user) = []
            \<and> (vectorstore env \<noteq> None \<longrightarrow> embeddings env \<longrightarrow>
                 fst (upload_document env upload current_user)
                   = Inl (HTTPException 400
                           (ascii ''Nur .pdf, .sql, .md, .txt Dateien werden unterst'' @ [252] @
                            ascii ''tzt''))))
       \<and> (file_ext \<in> set [ascii ''.pdf'', ascii ''.sql'', ascii ''.md'', ascii ''.txt''] \<longrightarrow>
            vectorstore env \<noteq> None \<longrightarrow> embeddings env \<longrightarrow>
              fst (upload_document env upload current_user)
                \<noteq> Inl (HTTPException 400
                        (ascii ''Nur .pdf, .sql, .md, .txt Dateien werden unterst'' @ [252] @
                         ascii ''tzt''))
              \<and> snd (extract_text env file_ext upload) \<noteq> []
              \<and> prefix (snd (extract_text env file_ext upload))
                   (snd (upload_document env upload current_user)))"
proof -
  let ?allowed = "[ascii ''.pdf'', ascii ''.sql'', ascii ''.md'', ascii ''.txt'']"
  let ?detail = "ascii ''Nur .pdf, .sql, .md, .txt Dateien werden unterst'' @ [252] @ ascii ''tzt''"
  have d1: "ascii ''Datei enth'' @ [228] @ ascii ''lt keinen extrahierbaren Text'' \<noteq> ?detail"
    by (simp add: ascii_def)
  have rejected: "isl (fst (upload_document env upload current_user))
            \<and> snd (upload_document env upload current_user) = []
            \<and> (vectorstore env \<noteq> None \<longrightarrow> embeddings env \<longrightarrow>
                 fst (upload_document env upload current_user) = Inl (HTTPException 400 ?detail))"
    if "file_ext \<notin> set ?allowed"
    using that assms unsupported_detail
    by (cases "vectorstore env") (simp_all add: upload_document_def Let_def)
  have passes: "fst (upload_document env upload current_user) \<noteq> Inl (HTTPException 400 ?detail)
              \<and> snd (extract_text env file_ext upload) \<noteq> []
              \<and> prefix (snd (extract_text env file_ext upload))
                   (snd (upload_document env upload current_user))"
    if a: "file_ext \<in> set ?allowed" and v: "vectorstore env \<noteq> None" and e: "embeddings env"
  proof -
    obtain vs where vs: "vectorstore env = Some vs" using v by auto
    obtain r calls where x: "extract_text env file_ext upload = (r, calls)"
      by (cases "extract_text env file_ext upload")
    have ne: "calls \<noteq> []"
      using extract_text_calls [of env file_ext upload] x by auto
    have "fst (upload_document env upload current_user) \<noteq> Inl (HTTPException 400 ?detail)
          \<and> prefix calls (snd (upload_document env upload current_user))"
      using a vs e x assms d1
      by (auto simp add: upload_document_def Let_def split: sum.splits)
    with ne x show ?thesis by simp
  qed
  from rejected passes show ?thesis by blast
qed

theorem upload_document_file_type_check_witness:
  "snd (splitext (str_lower sample_env (ascii ''setup.exe''))) = ascii ''.exe''
   \<and> ascii ''.exe'' \<notin> set [ascii ''.pdf'', ascii ''.sql'', ascii ''.md'', ascii ''.txt'']
   \<and> upload_document sample_env (sample_file\<lparr>UploadFile.filename := ascii ''setup.exe''\<rparr>) sample_user
       = (Inl (HTTPException 400
                (ascii ''Nur .pdf, .sql, .md, .txt Dateien werden unterst'' @ [252] @ ascii ''tzt'')),
          [])
   \<and> snd (splitext (str_lower sample_env (ascii ''Notes.TXT''))) = ascii ''.txt''
   \<and> ascii ''.txt'' \<in> set [ascii ''.pdf'', ascii ''.sql'', ascii ''.md'', ascii ''.txt'']
   \<and> prefix [DecodeUtf8] (snd (upload_document sample_env sample_file sample_user))"
proof -
  have v: "vectorstore sample_env \<noteq> None" and e: "embeddings sample_env"
    by (simp_all add: sample_env_def)
  have x: "snd (splitext (str_lower sample_env (ascii ''setup.exe''))) = ascii ''.exe''"
    by (simp add: sample_env_def splitext_def rfind_def ascii_def Let_def)
  have nx: "ascii ''.exe'' \<notin> set [ascii ''.pdf'', ascii ''.sql'', ascii ''.md'', ascii ''.txt'']"
    by (simp add: ascii_def)
  have t: "snd (splitext (str_lower sample_env (ascii ''Notes.TXT''))) = ascii ''.txt''"
    using sample_file_ext by (simp add: sample_file_def)
  have it: "ascii ''.txt'' \<in> set [ascii ''.pdf'', ascii ''.sql'', ascii ''.md'', ascii ''.txt'']"
    by simp
  have r1: "upload_document sample_env (sample_file\<lparr>UploadFile.filename := ascii ''setup.exe''\<rparr>) sample_user
       = (Inl (HTTPException 400
                (ascii ''Nur .pdf, .sql, .md, .txt Dateien werden unterst'' @ [252] @ ascii ''tzt'')),
          [])"
    using upload_document_file_type_check
      [where env = sample_env and file_ext = "ascii ''.exe''"
         and upload = "sample_file\<lparr>UploadFile.filename := ascii ''setup.exe''\<rparr>"
         and current_user = sample_user]
      x nx v e
    by (simp add: prod_eq_iff)
  have ex: "snd (extract_text sample_env (ascii ''.txt'') sample_file) = [DecodeUtf8]"
    by (simp add: extract_text_def ascii_def)
  have r2: "prefix [DecodeUtf8] (snd (upload_document sample_env sample_file sample_user))"
    using upload_document_file_type_check
      [where env = sample_env and file_ext = "ascii ''.txt''" and upload = sample_file
         and current_user = sample_user]
      t it v e ex
    by (simp add: sample_file_def)
  from x nx r1 t it r2 show ?thesis by blast
qed



end
